theory Spec2Isabelle
  imports Main "HOL-Library.Word" "HOL-Library.Monad_Syntax"
begin

unbundle bit_operations_syntax

section \<open>Mesh smoothing flags (enum Triangulation::MeshSmoothing, tria.h)\<close>

text \<open>
  The enumerators of \<^verbatim>\<open>Triangulation::MeshSmoothing\<close> are bit patterns that are combined
  with \<^verbatim>\<open>|\<close> and tested with \<^verbatim>\<open>&\<close>. They are kept here as 32-bit words with
  the values the header gives them.
\<close>

type_synonym MeshSmoothing = "32 word"

definition none :: MeshSmoothing where
  "none = 0x0"

definition limit_level_difference_at_vertices :: MeshSmoothing where
  "limit_level_difference_at_vertices = 0x1"

definition eliminate_unrefined_islands :: MeshSmoothing where
  "eliminate_unrefined_islands = 0x2"

definition patch_level_1 :: MeshSmoothing where
  "patch_level_1 = 0x4"

definition coarsest_level_1 :: MeshSmoothing where
  "coarsest_level_1 = 0x8"

definition allow_anisotropic_smoothing :: MeshSmoothing where
  "allow_anisotropic_smoothing = 0x10"

definition eliminate_refined_inner_islands :: MeshSmoothing where
  "eliminate_refined_inner_islands = 0x100"

definition eliminate_refined_boundary_islands :: MeshSmoothing where
  "eliminate_refined_boundary_islands = 0x200"

definition do_not_produce_unrefined_islands :: MeshSmoothing where
  "do_not_produce_unrefined_islands = 0x400"

definition smoothing_on_refinement :: MeshSmoothing where
  "smoothing_on_refinement =
     (limit_level_difference_at_vertices OR eliminate_unrefined_islands)"

definition smoothing_on_coarsening :: MeshSmoothing where
  "smoothing_on_coarsening =
     (eliminate_refined_inner_islands OR eliminate_refined_boundary_islands OR
      do_not_produce_unrefined_islands)"

definition maximum_smoothing :: MeshSmoothing where
  "maximum_smoothing = 0xffff XOR allow_anisotropic_smoothing"

text \<open>\<^verbatim>\<open>smooth_grid & flag\<close> used as a condition: the flag's bits are present.\<close>

definition has_flag :: "MeshSmoothing \<Rightarrow> MeshSmoothing \<Rightarrow> bool" where
  "has_flag smooth_grid flag \<longleftrightarrow> smooth_grid AND flag \<noteq> 0"

definition contains_flag :: "MeshSmoothing \<Rightarrow> MeshSmoothing \<Rightarrow> bool" where
  "contains_flag smooth_grid flag \<longleftrightarrow> smooth_grid AND flag = flag"


section \<open>Storage of a triangulation (data members of class Triangulation, tria.h)\<close>

text \<open>
  The identifier types and their reserved values live in \<^verbatim>\<open>types.h\<close>, which is not among
  the sources. Modelled from the spec: identifiers are unsigned 32-bit integers, and the
  reserved values (\<^verbatim>\<open>numbers::internal_face_boundary_id\<close> for "interior, not boundary",
  \<^verbatim>\<open>numbers::flat_manifold_id\<close>, \<^verbatim>\<open>numbers::invalid_unsigned_int\<close>) are the largest value
  of the type; the class documentation of tria.h says that boundary indicators range from
  zero to \<^verbatim>\<open>numbers::internal_face_boundary_id-1\<close>.
\<close>

type_synonym id32 = "32 word"

definition internal_face_boundary_id :: id32 where
  "internal_face_boundary_id = - 1"

definition flat_manifold_id :: id32 where
  "flat_manifold_id = - 1"

definition invalid_unsigned_int :: id32 where
  "invalid_unsigned_int = - 1"

text \<open>
  Modelled from the spec: the per-object storage (\<^verbatim>\<open>TriaObjects\<close>, \<^verbatim>\<open>TriaLevel\<close>,
  \<^verbatim>\<open>TriaFaces\<close>) is declared in headers that are not among the sources. Section 3 of the
  spec lists what a mesh object stores: the indices of its bounding sub-objects, a used
  flag, a parent index or "no parent", its child indices or "no children", one tag slot
  that holds the material id of a cell or the boundary id of a face, a manifold id and a
  subdomain id. The refine and coarsen flags and the active cell indices are arrays of the
  level, as \<^verbatim>\<open>Triangulation::load\<close> reads them (\<^verbatim>\<open>levels[l]->refine_flags\<close>,
  \<^verbatim>\<open>levels[l]->active_cell_indices\<close>).
\<close>

record mesh_object =
  sub_objects :: "nat list"
  used :: bool
  user_flag :: bool
  parent :: "nat option"
  children :: "nat list"
  boundary_or_material_id :: id32
  manifold_id :: id32
  subdomain_id :: id32

record TriaLevel =
  refine_flags :: "bool list"
  coarsen_flags :: "bool list"
  active_cell_indices :: "id32 list"
  cells :: "mesh_object list"

record TriaFaces =
  lines :: "mesh_object list"
  quads :: "mesh_object list"

text \<open>
  \<^verbatim>\<open>NumberCache<dim>\<close>: \<^verbatim>\<open>NumberCache<2>\<close> inherits from \<^verbatim>\<open>NumberCache<1>\<close> and
  \<^verbatim>\<open>NumberCache<3>\<close> from \<^verbatim>\<open>NumberCache<2>\<close>. The record has the fields of all three;
  in dimension \<open>d\<close> only those of \<^verbatim>\<open>NumberCache<d>\<close> exist, the others keep the value
  zero of the constructor.
\<close>

record NumberCache =
  n_levels :: nat
  n_lines :: nat
  n_lines_level :: "nat list"
  n_active_lines :: nat
  n_active_lines_level :: "nat list"
  n_quads :: nat
  n_quads_level :: "nat list"
  n_active_quads :: nat
  n_active_quads_level :: "nat list"
  n_hexes :: nat
  n_hexes_level :: "nat list"
  n_active_hexes :: nat
  n_active_hexes_level :: "nat list"

definition NumberCache_init :: NumberCache where
  "NumberCache_init =
     \<lparr>n_levels = 0, n_lines = 0, n_lines_level = [], n_active_lines = 0,
      n_active_lines_level = [], n_quads = 0, n_quads_level = [], n_active_quads = 0,
      n_active_quads_level = [], n_hexes = 0, n_hexes_level = [], n_active_hexes = 0,
      n_active_hexes_level = []\<rparr>"

text \<open>
  The signals of \<^verbatim>\<open>Triangulation::Signals\<close> that the functions modelled here trigger.
  A connection is a pair of a signal and the identifier of the connected slot; triggering
  a signal is recorded in the log \<open>triggered\<close>.
\<close>

datatype signal = Create | Pre_refinement | Post_refinement | Clear | Any_change

text \<open>
  The data members of \<^verbatim>\<open>Triangulation<dim, spacedim>\<close>. \<open>'p\<close> stands for
  \<^verbatim>\<open>Point<spacedim>\<close> and \<open>'m\<close> for the attached \<^verbatim>\<open>Manifold\<close> objects; \<open>dim\<close> is
  the template parameter. \<^verbatim>\<open>std::map\<close> members are association lists.
\<close>

record ('p, 'm) Triangulation =
  dim :: nat
  smooth_grid :: MeshSmoothing
  levels :: "TriaLevel list"
  faces :: "TriaFaces option"
  vertices :: "'p list"
  vertices_used :: "bool list"
  manifold :: "(id32 \<times> 'm) list"
  anisotropic_refinement :: bool
  check_for_distorted_cells :: bool
  number_cache :: NumberCache
  vertex_to_boundary_id_map_1d :: "(nat \<times> id32) list"
  vertex_to_manifold_id_map_1d :: "(nat \<times> id32) list"
  connections :: "(signal \<times> nat) list"
  triggered :: "signal list"

text \<open>
  \<^verbatim>\<open>n_active_cells()\<close> is declared in tria.h: "Return the total number of active cells.
  Maps to \<^verbatim>\<open>n_active_lines()\<close> in one space dimension and so on"; the numbers are served
  from the number cache.
\<close>

definition n_active_cells_cache :: "nat \<Rightarrow> NumberCache \<Rightarrow> nat" where
  "n_active_cells_cache d c =
     (if d \<le> 1 then n_active_lines c
      else if d = 2 then n_active_quads c
      else n_active_hexes c)"

definition n_active_cells :: "('p, 'm) Triangulation \<Rightarrow> nat" where
  "n_active_cells t = n_active_cells_cache (dim t) (number_cache t)"

text \<open>\<^verbatim>\<open>Triangulation::n_vertices\<close>, \<^verbatim>\<open>get_vertices\<close>, \<^verbatim>\<open>n_levels\<close> (inline in tria.h).\<close>

definition n_vertices :: "('p, 'm) Triangulation \<Rightarrow> nat" where
  "n_vertices t = length (vertices t)"

definition get_vertices :: "('p, 'm) Triangulation \<Rightarrow> 'p list" where
  "get_vertices t = vertices t"

definition n_levels_tria :: "('p, 'm) Triangulation \<Rightarrow> nat" where
  "n_levels_tria t = n_levels (number_cache t)"

text \<open>
  \<^verbatim>\<open>vertex_used(index)\<close>: the assertion \<^verbatim>\<open>index < vertices_used.size()\<close> is the
  failing branch.
\<close>

datatype error = ExcIndexRange | ExcMessage | ArchiveException

definition vertex_used :: "('p, 'm) Triangulation \<Rightarrow> nat \<Rightarrow> error + bool" where
  "vertex_used t index =
     (if index < length (vertices_used t) then Inr (vertices_used t ! index)
      else Inl ExcIndexRange)"


section \<open>Serialization (Triangulation::save and Triangulation::load, tria.h)\<close>

text \<open>
  An archive is the sequence of the values streamed into it with \<^verbatim>\<open>ar & x\<close>. Reading an
  item of another kind than the one the reader asks for, or reading past the end, is the
  archive's exception. A level is streamed without its \<^verbatim>\<open>active_cell_indices\<close>: the
  comment in \<^verbatim>\<open>load\<close> says that "the levels do not serialize the active_cell_indices
  because they are easy enough to rebuild upon re-loading data".
\<close>

datatype 'p archive_item =
    A_bool bool
  | A_uint nat
  | A_uints "nat list"
  | A_smoothing MeshSmoothing
  | A_level TriaLevel
  | A_faces TriaFaces
  | A_points "'p list"
  | A_bools "bool list"
  | A_id_map "(nat \<times> id32) list"

type_synonym 'p archive = "'p archive_item list"

definition serialize_level :: "TriaLevel \<Rightarrow> TriaLevel" where
  "serialize_level l = l\<lparr>active_cell_indices := []\<rparr>"

text \<open>\<^verbatim>\<open>NumberCache<1>::serialize\<close>, \<^verbatim>\<open>NumberCache<2>::serialize\<close>,
  \<^verbatim>\<open>NumberCache<3>::serialize\<close>, writing: each calls the one of its base class first.\<close>

definition save_NumberCache_1 :: "NumberCache \<Rightarrow> 'p archive" where
  "save_NumberCache_1 c =
     [A_uint (n_levels c),
      A_uint (n_lines c), A_uints (n_lines_level c),
      A_uint (n_active_lines c), A_uints (n_active_lines_level c)]"

definition save_NumberCache_2 :: "NumberCache \<Rightarrow> 'p archive" where
  "save_NumberCache_2 c =
     save_NumberCache_1 c @
     [A_uint (n_quads c), A_uints (n_quads_level c),
      A_uint (n_active_quads c), A_uints (n_active_quads_level c)]"

definition save_NumberCache_3 :: "NumberCache \<Rightarrow> 'p archive" where
  "save_NumberCache_3 c =
     save_NumberCache_2 c @
     [A_uint (n_hexes c), A_uints (n_hexes_level c),
      A_uint (n_active_hexes c), A_uints (n_active_hexes_level c)]"

definition save_NumberCache :: "nat \<Rightarrow> NumberCache \<Rightarrow> 'p archive" where
  "save_NumberCache d c =
     (if d \<le> 1 then save_NumberCache_1 c
      else if d = 2 then save_NumberCache_2 c
      else save_NumberCache_3 c)"

text \<open>Reading one item of a given kind (\<^verbatim>\<open>ar & x\<close> on an input archive).\<close>

definition read_bool :: "'p archive \<Rightarrow> (bool \<times> 'p archive) option" where
  "read_bool ar = (case ar of A_bool b # r \<Rightarrow> Some (b, r) | _ \<Rightarrow> None)"

definition read_uint :: "'p archive \<Rightarrow> (nat \<times> 'p archive) option" where
  "read_uint ar = (case ar of A_uint n # r \<Rightarrow> Some (n, r) | _ \<Rightarrow> None)"

definition read_uints :: "'p archive \<Rightarrow> (nat list \<times> 'p archive) option" where
  "read_uints ar = (case ar of A_uints ns # r \<Rightarrow> Some (ns, r) | _ \<Rightarrow> None)"

definition read_smoothing :: "'p archive \<Rightarrow> (MeshSmoothing \<times> 'p archive) option" where
  "read_smoothing ar = (case ar of A_smoothing g # r \<Rightarrow> Some (g, r) | _ \<Rightarrow> None)"

definition read_level :: "'p archive \<Rightarrow> (TriaLevel \<times> 'p archive) option" where
  "read_level ar = (case ar of A_level l # r \<Rightarrow> Some (l, r) | _ \<Rightarrow> None)"

definition read_faces :: "'p archive \<Rightarrow> (TriaFaces \<times> 'p archive) option" where
  "read_faces ar = (case ar of A_faces f # r \<Rightarrow> Some (f, r) | _ \<Rightarrow> None)"

definition read_points :: "'p archive \<Rightarrow> ('p list \<times> 'p archive) option" where
  "read_points ar = (case ar of A_points ps # r \<Rightarrow> Some (ps, r) | _ \<Rightarrow> None)"

definition read_bools :: "'p archive \<Rightarrow> (bool list \<times> 'p archive) option" where
  "read_bools ar = (case ar of A_bools bs # r \<Rightarrow> Some (bs, r) | _ \<Rightarrow> None)"

definition read_id_map :: "'p archive \<Rightarrow> ((nat \<times> id32) list \<times> 'p archive) option" where
  "read_id_map ar = (case ar of A_id_map m # r \<Rightarrow> Some (m, r) | _ \<Rightarrow> None)"

text \<open>The same functions, reading.\<close>

definition load_NumberCache_1 :: "NumberCache \<Rightarrow> 'p archive \<Rightarrow> (NumberCache \<times> 'p archive) option" where
  "load_NumberCache_1 c ar =
     do {
       (a, ar1) \<leftarrow> read_uint ar;
       (b, ar2) \<leftarrow> read_uint ar1;
       (bl, ar3) \<leftarrow> read_uints ar2;
       (e, ar4) \<leftarrow> read_uint ar3;
       (el, ar5) \<leftarrow> read_uints ar4;
       Some (c\<lparr>n_levels := a, n_lines := b, n_lines_level := bl,
                n_active_lines := e, n_active_lines_level := el\<rparr>, ar5)
     }"

definition load_NumberCache_2 :: "NumberCache \<Rightarrow> 'p archive \<Rightarrow> (NumberCache \<times> 'p archive) option" where
  "load_NumberCache_2 c ar =
     do {
       (c1, ar1) \<leftarrow> load_NumberCache_1 c ar;
       (b, ar2) \<leftarrow> read_uint ar1;
       (bl, ar3) \<leftarrow> read_uints ar2;
       (e, ar4) \<leftarrow> read_uint ar3;
       (el, ar5) \<leftarrow> read_uints ar4;
       Some (c1\<lparr>n_quads := b, n_quads_level := bl,
                 n_active_quads := e, n_active_quads_level := el\<rparr>, ar5)
     }"

definition load_NumberCache_3 :: "NumberCache \<Rightarrow> 'p archive \<Rightarrow> (NumberCache \<times> 'p archive) option" where
  "load_NumberCache_3 c ar =
     do {
       (c2, ar1) \<leftarrow> load_NumberCache_2 c ar;
       (b, ar2) \<leftarrow> read_uint ar1;
       (bl, ar3) \<leftarrow> read_uints ar2;
       (e, ar4) \<leftarrow> read_uint ar3;
       (el, ar5) \<leftarrow> read_uints ar4;
       Some (c2\<lparr>n_hexes := b, n_hexes_level := bl,
                 n_active_hexes := e, n_active_hexes_level := el\<rparr>, ar5)
     }"

definition load_NumberCache :: "nat \<Rightarrow> NumberCache \<Rightarrow> 'p archive \<Rightarrow> (NumberCache \<times> 'p archive) option" where
  "load_NumberCache d c ar =
     (if d \<le> 1 then load_NumberCache_1 c ar
      else if d = 2 then load_NumberCache_2 c ar
      else load_NumberCache_3 c ar)"

text \<open>\<^verbatim>\<open>Triangulation::save\<close>: the items in the order the function streams them. Signals
  and manifold objects are not streamed.\<close>

definition save :: "('p, 'm) Triangulation \<Rightarrow> 'p archive" where
  "save t =
     [A_smoothing (smooth_grid t)] @
     [A_uint (length (levels t))] @
     map (\<lambda>l. A_level (serialize_level l)) (levels t) @
     [A_bool (faces t = None)] @
     (case faces t of None \<Rightarrow> [] | Some f \<Rightarrow> [A_faces f]) @
     [A_points (vertices t)] @
     [A_bools (vertices_used t)] @
     [A_bool (anisotropic_refinement t)] @
     save_NumberCache (dim t) (number_cache t) @
     [A_bool (check_for_distorted_cells t)] @
     (if dim t = 1
      then [A_id_map (vertex_to_boundary_id_map_1d t), A_id_map (vertex_to_manifold_id_map_1d t)]
      else [])"

text \<open>
  Modelled from the spec: the body of \<^verbatim>\<open>Triangulation::clear\<close> is not among the sources.
  Its declaration says "Reset this triangulation into a virgin state by deleting all
  data", and the documentation of the clear signal that it is triggered before the data
  structures are destroyed. The mesh smoothing and the distortion check are settings of
  the constructor and stay.
\<close>

definition clear :: "('p, 'm) Triangulation \<Rightarrow> ('p, 'm) Triangulation" where
  "clear t =
     t\<lparr>triggered := triggered t @ [Clear],
       levels := [], faces := None, vertices := [], vertices_used := [],
       manifold := [], number_cache := NumberCache_init\<rparr>"

text \<open>\<^verbatim>\<open>std::vector::resize\<close> with value-initialised new elements.\<close>

definition resize :: "'a \<Rightarrow> nat \<Rightarrow> 'a list \<Rightarrow> 'a list" where
  "resize z n xs = take n xs @ replicate (n - length xs) z"

text \<open>
  Modelled from the spec: the body of \<^verbatim>\<open>reset_active_cell_indices\<close> is not among the
  sources. Its declaration says: "For all cells, set the active cell indices so that
  active cells know the how many-th active cell they are, and all other cells have an
  invalid value." A cell is active when it is used and has no children. A write past the
  end of \<^verbatim>\<open>active_cell_indices\<close> does not happen on a level whose arrays have the size
  of its cell array; the model drops it.
\<close>

fun reset_indices_level :: "nat \<Rightarrow> nat \<Rightarrow> mesh_object list \<Rightarrow> id32 list \<Rightarrow> id32 list \<times> nat" where
  "reset_indices_level i next [] idx = (idx, next)"
| "reset_indices_level i next (c # cs) idx =
     (if \<not> used c \<or> children c \<noteq> []
      then reset_indices_level (Suc i) next cs (idx[i := invalid_unsigned_int])
      else reset_indices_level (Suc i) (Suc next) cs (idx[i := of_nat next]))"

fun reset_indices_levels :: "nat \<Rightarrow> TriaLevel list \<Rightarrow> TriaLevel list" where
  "reset_indices_levels next [] = []"
| "reset_indices_levels next (l # ls) =
     (case reset_indices_level 0 next (cells l) (active_cell_indices l) of
        (idx, next') \<Rightarrow> l\<lparr>active_cell_indices := idx\<rparr> # reset_indices_levels next' ls)"

definition reset_active_cell_indices :: "('p, 'm) Triangulation \<Rightarrow> ('p, 'm) Triangulation" where
  "reset_active_cell_indices t = t\<lparr>levels := reset_indices_levels 0 (levels t)\<rparr>"

text \<open>Reading \<open>n\<close> levels, one \<^verbatim>\<open>ar & level\<close> each.\<close>

fun load_levels :: "nat \<Rightarrow> 'p archive \<Rightarrow> (TriaLevel list \<times> 'p archive) option" where
  "load_levels 0 ar = Some ([], ar)"
| "load_levels (Suc n) ar =
     do {
       (l, ar1) \<leftarrow> read_level ar;
       (ls, ar2) \<leftarrow> load_levels n ar1;
       Some (l # ls, ar2)
     }"

text \<open>
  \<^verbatim>\<open>Triangulation::load\<close>, in the order of its statements. Reading from the archive is
  in the option monad; \<open>None\<close> is the archive's exception. \<open>debug\<close> says whether
  \<^verbatim>\<open>Assert\<close> is compiled in: then a stored distortion setting that differs from the one
  of the receiving triangulation is the error \<^verbatim>\<open>ExcMessage\<close>; \<^verbatim>\<open>check_for_distorted_cells\<close>
  itself is \<^verbatim>\<open>const\<close> and is never assigned. The result is the triangulation and the
  rest of the archive.
\<close>

definition load_data ::
  "('p, 'm) Triangulation \<Rightarrow> 'p archive \<Rightarrow> (('p, 'm) Triangulation \<times> bool \<times> 'p archive) option" where
  "load_data t ar =
     do {
       (sg, ar1) \<leftarrow> read_smoothing ar;
       (sz, ar2) \<leftarrow> read_uint ar1;
       (ls, ar3) \<leftarrow> load_levels sz ar2;
       (faces_is_nullptr, ar4) \<leftarrow> read_bool ar3;
       (fs, ar5) \<leftarrow> (if \<not> faces_is_nullptr
                     then do { (f, r) \<leftarrow> read_faces ar4; Some (Some f, r) }
                     else Some (faces t, ar4));
       (vs, ar6) \<leftarrow> read_points ar5;
       (vu, ar7) \<leftarrow> read_bools ar6;
       (aniso, ar8) \<leftarrow> read_bool ar7;
       (nc, ar9) \<leftarrow> load_NumberCache (dim t) (number_cache t) ar8;
       (my_check_for_distorted_cells, ar10) \<leftarrow> read_bool ar9;
       Some (reset_active_cell_indices
               (t\<lparr>smooth_grid := sg, faces := fs, vertices := vs, vertices_used := vu,
                   anisotropic_refinement := aniso, number_cache := nc,
                   levels := map (\<lambda>l. l\<lparr>active_cell_indices :=
                                resize 0 (length (refine_flags l)) (active_cell_indices l)\<rparr>) ls\<rparr>),
             my_check_for_distorted_cells, ar10)
     }"

definition load_maps_1d ::
  "('p, 'm) Triangulation \<Rightarrow> 'p archive \<Rightarrow> (('p, 'm) Triangulation \<times> 'p archive) option" where
  "load_maps_1d t ar =
     (if dim t = 1
      then do {
        (b, ar1) \<leftarrow> read_id_map ar;
        (m, ar2) \<leftarrow> read_id_map ar1;
        Some (t\<lparr>vertex_to_boundary_id_map_1d := b, vertex_to_manifold_id_map_1d := m\<rparr>, ar2)
      }
      else Some (t, ar))"

definition load ::
  "bool \<Rightarrow> ('p, 'm) Triangulation \<Rightarrow> 'p archive \<Rightarrow> error + (('p, 'm) Triangulation \<times> 'p archive)" where
  "load debug t ar =
     (case load_data (clear t) ar of
        None \<Rightarrow> Inl ArchiveException
      | Some (t1, my_check_for_distorted_cells, ar1) \<Rightarrow>
          if debug \<and> my_check_for_distorted_cells \<noteq> check_for_distorted_cells t1
          then Inl ExcMessage
          else (case load_maps_1d t1 ar1 of
                  None \<Rightarrow> Inl ArchiveException
                | Some (t2, ar2) \<Rightarrow> Inr (t2\<lparr>triggered := triggered t2 @ [Create]\<rparr>, ar2)))"

text \<open>The identifiers that the objects of a triangulation carry: for every cell of every
  level and every face its material or boundary id and its manifold id, and in one
  dimension the identifiers of the vertices.\<close>

definition object_ids :: "mesh_object list \<Rightarrow> (id32 \<times> id32) list" where
  "object_ids os = map (\<lambda>c. (boundary_or_material_id c, manifold_id c)) os"

definition all_ids ::
  "('p, 'm) Triangulation \<Rightarrow>
     (id32 \<times> id32) list list \<times> ((id32 \<times> id32) list \<times> (id32 \<times> id32) list) option \<times>
     (nat \<times> id32) list \<times> (nat \<times> id32) list" where
  "all_ids t =
     (map (\<lambda>l. object_ids (cells l)) (levels t),
      map_option (\<lambda>f. (object_ids (lines f), object_ids (quads f))) (faces t),
      (if dim t = 1 then vertex_to_boundary_id_map_1d t else []),
      (if dim t = 1 then vertex_to_manifold_id_map_1d t else []))"


text \<open>Two small triangulations on which the round trip is run: a stored one with one
  quadrilateral, an attached manifold and no connection, and a receiving one with a
  connection to the post-refinement signal.\<close>

definition stored_example :: "(int \<times> int, string) Triangulation" where
  "stored_example =
     \<lparr>dim = 2, smooth_grid = limit_level_difference_at_vertices,
      levels = [\<lparr>refine_flags = [False], coarsen_flags = [False], active_cell_indices = [0],
                 cells = [\<lparr>sub_objects = [0, 1, 2, 3], used = True, user_flag = False,
                           parent = None, children = [], boundary_or_material_id = 7,
                           manifold_id = 3, subdomain_id = 0\<rparr>]\<rparr>],
      faces = None,
      vertices = [(0, 0), (1, 0), (0, 1), (1, 1)],
      vertices_used = [True, True, True, True],
      manifold = [(3, ''polar'')],
      anisotropic_refinement = False, check_for_distorted_cells = True,
      number_cache = NumberCache_init\<lparr>n_levels := 1, n_quads := 1, n_quads_level := [1],
                                        n_active_quads := 1, n_active_quads_level := [1]\<rparr>,
      vertex_to_boundary_id_map_1d = [], vertex_to_manifold_id_map_1d = [],
      connections = [], triggered = []\<rparr>"

definition receiving_example :: "(int \<times> int, string) Triangulation" where
  "receiving_example =
     \<lparr>dim = 2, smooth_grid = none, levels = [], faces = None, vertices = [],
      vertices_used = [], manifold = [], anisotropic_refinement = False,
      check_for_distorted_cells = True, number_cache = NumberCache_init,
      vertex_to_boundary_id_map_1d = [], vertex_to_manifold_id_map_1d = [],
      connections = [(Post_refinement, 5)], triggered = []\<rparr>"


section \<open>Regularization and smoothing of the flags (prepare_coarsening_and_refinement)\<close>

text \<open>
  Modelled from the spec: \<^verbatim>\<open>prepare_coarsening_and_refinement\<close> and \<^verbatim>\<open>fix_coarsen_flags\<close>
  are declared in tria.h, their bodies are not among the sources. The steps below follow
  section 4.3 of the spec and, where the spec is short, the description of the same
  algorithms in the class documentation of tria.h ("Algorithms for mesh regularization and
  smoothing upon refinement") and in the documentation of the enumerators of
  \<^verbatim>\<open>MeshSmoothing\<close>.

  The flags of the model are those of isotropic refinement: a cell carries the refine flag
  or it does not. With \<^verbatim>\<open>allow_anisotropic_smoothing\<close> "the library can produce [...]
  anisotropic refinements" of a coarser neighbor, which these flags cannot express; the
  model is that of the settings without this bit (\<open>isotropic_smoothing\<close> below), and
  every statement about \<^verbatim>\<open>prepare_coarsening_and_refinement\<close> is made for these settings.

  The algorithms only look at the topology of the mesh. A \<open>mesh_view\<close> is what they see:
  the used cells in the order of the cell iterators (coarser levels first), the level and
  the children of a cell (no children: the cell is active), its neighbors behind its
  interior faces as \<^verbatim>\<open>cell->neighbor(f)\<close> gives them (the cell of the same level if
  there is one, else the coarser active cell), and the active cells with which it shares
  a vertex.
\<close>

record 'c mesh_view =
  view_dim :: nat
  cell_list :: "'c list"
  cell_level :: "'c \<Rightarrow> nat"
  cell_children :: "'c \<Rightarrow> 'c list"
  cell_neighbors :: "'c \<Rightarrow> 'c list"
  cell_touching :: "'c \<Rightarrow> 'c list"

text \<open>The refine and coarsen flags: the sets of the cells that carry them.\<close>

record 'c cell_flags =
  refine :: "'c set"
  coarsen :: "'c set"

definition active :: "'c mesh_view \<Rightarrow> 'c \<Rightarrow> bool" where
  "active v c \<longleftrightarrow> cell_children v c = []"

definition set_refine_flag :: "'c \<Rightarrow> 'c cell_flags \<Rightarrow> 'c cell_flags" where
  "set_refine_flag c f = f\<lparr>refine := insert c (refine f)\<rparr>"

definition clear_refine_flag :: "'c \<Rightarrow> 'c cell_flags \<Rightarrow> 'c cell_flags" where
  "clear_refine_flag c f = f\<lparr>refine := refine f - {c}\<rparr>"

definition set_coarsen_flag :: "'c \<Rightarrow> 'c cell_flags \<Rightarrow> 'c cell_flags" where
  "set_coarsen_flag c f = f\<lparr>coarsen := insert c (coarsen f)\<rparr>"

definition clear_coarsen_flag :: "'c \<Rightarrow> 'c cell_flags \<Rightarrow> 'c cell_flags" where
  "clear_coarsen_flag c f = f\<lparr>coarsen := coarsen f - {c}\<rparr>"

text \<open>A cell that a step flags for refinement loses its coarsen flag (refinement wins).\<close>

definition flag_for_refinement :: "'c \<Rightarrow> 'c cell_flags \<Rightarrow> 'c cell_flags" where
  "flag_for_refinement c f = set_refine_flag c (clear_coarsen_flag c f)"

subsection \<open>Elimination of refined islands\<close>

text \<open>
  Class documentation: "If a cell is flagged for refinement or if all of its children are
  active and if the number of neighbors which are either active and not flagged for
  refinement, or not active but all children flagged for coarsening equals the total
  number of neighbors, then this cell's children are flagged for coarsening or (if this
  cell was flagged for refinement) the refine flag is cleared." The enumerator
  \<^verbatim>\<open>eliminate_refined_inner_islands\<close> is for cells in the interior (all
  \<open>2 * dim\<close> faces have a neighbor), \<^verbatim>\<open>eliminate_refined_boundary_islands\<close> for cells
  at the boundary. A cell without any neighbor is not taken for an island.
\<close>

definition unrefined_neighbor :: "'c mesh_view \<Rightarrow> 'c cell_flags \<Rightarrow> 'c \<Rightarrow> bool" where
  "unrefined_neighbor v f n \<longleftrightarrow>
     (if active v n then n \<notin> refine f
      else list_all (\<lambda>x. x \<in> coarsen f) (cell_children v n))"

definition refined_island :: "MeshSmoothing \<Rightarrow> 'c mesh_view \<Rightarrow> 'c cell_flags \<Rightarrow> 'c \<Rightarrow> bool" where
  "refined_island sg v f c \<longleftrightarrow>
     (let total_neighbors = length (cell_neighbors v c);
          unrefined_neighbors = length (filter (unrefined_neighbor v f) (cell_neighbors v c))
      in unrefined_neighbors = total_neighbors \<and> total_neighbors \<noteq> 0 \<and>
         (if total_neighbors = 2 * view_dim v
          then has_flag sg eliminate_refined_inner_islands
          else has_flag sg eliminate_refined_boundary_islands))"

definition island_to_eliminate ::
  "MeshSmoothing \<Rightarrow> 'c mesh_view \<Rightarrow> 'c cell_flags \<Rightarrow> 'c \<Rightarrow> bool" where
  "island_to_eliminate sg v f c \<longleftrightarrow>
     ((active v c \<and> c \<in> refine f) \<or>
      (\<not> active v c \<and> list_all (active v) (cell_children v c))) \<and>
     refined_island sg v f c"

definition eliminate_refined_island ::
  "MeshSmoothing \<Rightarrow> 'c mesh_view \<Rightarrow> 'c \<Rightarrow> 'c cell_flags \<Rightarrow> 'c cell_flags" where
  "eliminate_refined_island sg v c f =
     (if island_to_eliminate sg v f c
      then (if active v c then clear_refine_flag c f
            else fold (\<lambda>x g. set_coarsen_flag x (clear_refine_flag x g)) (cell_children v c) f)
      else f)"

definition eliminate_refined_islands_step ::
  "MeshSmoothing \<Rightarrow> 'c mesh_view \<Rightarrow> 'c cell_flags \<Rightarrow> 'c cell_flags" where
  "eliminate_refined_islands_step sg v f = fold (eliminate_refined_island sg v) (cell_list v) f"

subsection \<open>Limiting the level difference at vertices\<close>

text \<open>
  Class documentation: "First a list is set up which stores for each vertex the highest
  level one of the adjacent cells belongs to. [...] if we store the level plus one for
  cells marked for refinement, we may end up with cells which have vertices of level two
  greater than the cells level. We need to refine this cell also, and need thus also
  update the levels of its vertices." The level a cell contributes to its vertices is
  the one it will have: one more with a refine flag, one less with a coarsen flag. A cell
  with a vertex of a level greater than its own may not be coarsened. The cells are
  visited from the finest level down.
\<close>

definition future_level :: "'c mesh_view \<Rightarrow> 'c cell_flags \<Rightarrow> 'c \<Rightarrow> nat" where
  "future_level v f c =
     (if c \<in> refine f then cell_level v c + 1
      else if c \<in> coarsen f then cell_level v c - 1
      else cell_level v c)"

definition vertex_level_exceeds :: "'c mesh_view \<Rightarrow> 'c cell_flags \<Rightarrow> 'c \<Rightarrow> nat \<Rightarrow> bool" where
  "vertex_level_exceeds v f c l \<longleftrightarrow>
     list_ex (\<lambda>b. active v b \<and> l < future_level v f b) (cell_touching v c)"

definition limit_level_difference_cell ::
  "'c mesh_view \<Rightarrow> 'c \<Rightarrow> 'c cell_flags \<Rightarrow> 'c cell_flags" where
  "limit_level_difference_cell v c f =
     (if active v c \<and> c \<notin> refine f
      then (if vertex_level_exceeds v f c (cell_level v c + 1) then flag_for_refinement c f
            else if vertex_level_exceeds v f c (cell_level v c) then clear_coarsen_flag c f
            else f)
      else f)"

definition limit_level_difference :: "'c mesh_view \<Rightarrow> 'c cell_flags \<Rightarrow> 'c cell_flags" where
  "limit_level_difference v f = fold (limit_level_difference_cell v) (rev (cell_list v)) f"

subsection \<open>Elimination of unrefined islands\<close>

text \<open>
  Class documentation: "For each cell we count the number of neighbors which are refined
  or flagged for refinement. If this exceeds the number of neighbors which are not refined
  and not flagged for refinement, then the current cell is flagged for refinement."
  Faces at the boundary have no neighbor and are not counted.
\<close>

definition eliminate_unrefined_island ::
  "'c mesh_view \<Rightarrow> 'c \<Rightarrow> 'c cell_flags \<Rightarrow> 'c cell_flags" where
  "eliminate_unrefined_island v c f =
     (if active v c \<and> c \<notin> refine f
      then (let refined_neighbors =
                  length (filter (\<lambda>n. \<not> active v n \<or> n \<in> refine f) (cell_neighbors v c));
                unrefined_neighbors = length (cell_neighbors v c) - refined_neighbors
            in if unrefined_neighbors < refined_neighbors then flag_for_refinement c f else f)
      else f)"

definition eliminate_unrefined_islands_step :: "'c mesh_view \<Rightarrow> 'c cell_flags \<Rightarrow> 'c cell_flags" where
  "eliminate_unrefined_islands_step v f = fold (eliminate_unrefined_island v) (rev (cell_list v)) f"

subsection \<open>Coarsest level one and patch level one\<close>

text \<open>
  \<^verbatim>\<open>coarsest_level_1\<close>: "Each coarse grid cell is refined at least once, i.e., the
  triangulation might have active cells on level 1 but not on level 0. [...] It follows
  that active cells on level 1 may not be coarsened." The same holds for a mesh of patch
  level 1, which "consists of patches, i.e. of cells that are refined once" and so has no
  active cell on level 0.
\<close>

definition clear_coarsen_flag_level_1 ::
  "'c mesh_view \<Rightarrow> 'c \<Rightarrow> 'c cell_flags \<Rightarrow> 'c cell_flags" where
  "clear_coarsen_flag_level_1 v c f =
     (if active v c \<and> cell_level v c = 1 then clear_coarsen_flag c f else f)"

definition clear_coarsen_flags_level_1 :: "'c mesh_view \<Rightarrow> 'c cell_flags \<Rightarrow> 'c cell_flags" where
  "clear_coarsen_flags_level_1 v f = fold (clear_coarsen_flag_level_1 v) (cell_list v) f"

text \<open>
  \<^verbatim>\<open>patch_level_1\<close>: "This flag ensures that a mesh of patch level 1 is still of patch
  level 1 after coarsening and refinement. [...] It follows that if at least one of the
  children of a cell is or will be refined than all children need to be refined." For the
  coarsening: when the children of a cell are coarsened the cell becomes active, and it
  is part of a patch only if all children of its parent are active then; so the children
  of the children of a cell keep their coarsen flags only if all of them carry one.
\<close>

definition patch_refine_cell :: "'c mesh_view \<Rightarrow> 'c \<Rightarrow> 'c cell_flags \<Rightarrow> 'c cell_flags" where
  "patch_refine_cell v c f =
     (if list_ex (\<lambda>x. \<not> active v x \<or> x \<in> refine f) (cell_children v c)
      then fold (\<lambda>x g. if active v x then flag_for_refinement x g else g) (cell_children v c) f
      else f)"

definition grandchildren :: "'c mesh_view \<Rightarrow> 'c \<Rightarrow> 'c list" where
  "grandchildren v p = concat (map (cell_children v) (cell_children v p))"

definition patch_coarsen_cell :: "'c mesh_view \<Rightarrow> 'c \<Rightarrow> 'c cell_flags \<Rightarrow> 'c cell_flags" where
  "patch_coarsen_cell v p f =
     (if list_all (\<lambda>c. \<not> active v c) (cell_children v p) \<and>
         list_all (\<lambda>x. x \<in> coarsen f) (grandchildren v p)
      then f
      else fold clear_coarsen_flag (grandchildren v p) f)"

definition patch_level_1_step :: "'c mesh_view \<Rightarrow> 'c cell_flags \<Rightarrow> 'c cell_flags" where
  "patch_level_1_step v f =
     fold (patch_coarsen_cell v) (cell_list v) (fold (patch_refine_cell v) (cell_list v) f)"

subsection \<open>No new unrefined islands\<close>

text \<open>
  \<^verbatim>\<open>do_not_produce_unrefined_islands\<close>: "This flag prevents the occurrence of unrefined
  islands. In more detail: It prohibits the coarsening of a cell if 'most of the
  neighbors' will be refined after the step." The cell is the one that the coarsening of
  its children would make active; a neighbor will be refined after the step when it is
  active and flagged for refinement, or refined and not all of its children are flagged
  for coarsening; most of the neighbors: more than those that will not be refined.
\<close>

definition keep_refined :: "'c mesh_view \<Rightarrow> 'c \<Rightarrow> 'c cell_flags \<Rightarrow> 'c cell_flags" where
  "keep_refined v c f =
     (if length (filter (unrefined_neighbor v f) (cell_neighbors v c)) <
         length (filter (\<lambda>n. \<not> unrefined_neighbor v f n) (cell_neighbors v c))
      then fold clear_coarsen_flag (cell_children v c) f
      else f)"

definition do_not_produce_unrefined_islands_step ::
  "'c mesh_view \<Rightarrow> 'c cell_flags \<Rightarrow> 'c cell_flags" where
  "do_not_produce_unrefined_islands_step v f = fold (keep_refined v) (cell_list v) f"

subsection \<open>Regularization\<close>

text \<open>
  Class documentation: "The algorithm walks over all cells checking whether the present
  cell is flagged for refinement and a neighbor of the present cell is refined once less
  than the present one. If so, flag the neighbor for refinement. [...] we can get away
  with only one sweep over all cells if we do the loop in the reverse way, starting with
  those on the highest level." An active neighbor of the same level may not be coarsened
  when the cell is refined ("deleting coarsen flags from cells which may not be deleted
  (e.g. because one neighbor is more refined than the cell)", documentation of
  \<^verbatim>\<open>prepare_coarsening_and_refinement\<close>).
\<close>

definition regularize_neighbor ::
  "'c mesh_view \<Rightarrow> 'c \<Rightarrow> 'c \<Rightarrow> 'c cell_flags \<Rightarrow> 'c cell_flags" where
  "regularize_neighbor v c n f =
     (if active v n
      then (if cell_level v n < cell_level v c then flag_for_refinement n f
            else clear_coarsen_flag n f)
      else f)"

definition regularize_cell :: "'c mesh_view \<Rightarrow> 'c \<Rightarrow> 'c cell_flags \<Rightarrow> 'c cell_flags" where
  "regularize_cell v c f =
     (if active v c \<and> c \<in> refine f
      then fold (regularize_neighbor v c) (cell_neighbors v c) f
      else f)"

definition regularize :: "'c mesh_view \<Rightarrow> 'c cell_flags \<Rightarrow> 'c cell_flags" where
  "regularize v f = fold (regularize_cell v) (rev (cell_list v)) f"

subsection \<open>fix_coarsen_flags\<close>

text \<open>
  Declaration: "Make sure that either all or none of the children of a cell are tagged for
  coarsening." Spec: it "repairs partial-sibling-coarsening violations (the all-or-nothing
  invariant) and resolves conflicts where a cell is flagged for both refinement and
  coarsening (refinement wins)". The children of a cell may be coarsened when all of them
  are active and carry the coarsen flag and no refine flag, and when no cell behind a
  face of the parent is, or will be, more refined than the children are now. All other
  coarsen flags are cleared.
\<close>

definition coarsening_allowed :: "'c mesh_view \<Rightarrow> 'c cell_flags \<Rightarrow> 'c \<Rightarrow> bool" where
  "coarsening_allowed v f p \<longleftrightarrow>
     list_all
       (\<lambda>n. active v n \<or>
            list_all
              (\<lambda>x. list_ex (\<lambda>y. y \<in> set (cell_children v p)) (cell_neighbors v x) \<longrightarrow>
                   active v x \<and> x \<notin> refine f)
              (cell_children v n))
       (cell_neighbors v p)"

definition may_be_coarsened :: "'c mesh_view \<Rightarrow> 'c cell_flags \<Rightarrow> 'c \<Rightarrow> bool" where
  "may_be_coarsened v f p \<longleftrightarrow>
     \<not> active v p \<and>
     list_all (\<lambda>x. active v x \<and> x \<in> coarsen f \<and> x \<notin> refine f) (cell_children v p) \<and>
     coarsening_allowed v f p"

definition fix_coarsen_flags :: "'c mesh_view \<Rightarrow> 'c cell_flags \<Rightarrow> 'c cell_flags" where
  "fix_coarsen_flags v f =
     f\<lparr>coarsen := set (concat (map (cell_children v)
                                  (filter (may_be_coarsened v f) (cell_list v))))\<rparr>"

subsection \<open>The loop of prepare_coarsening_and_refinement\<close>

text \<open>
  One pass: smoothing and regularization (class documentation: "All the described
  algorithms apply only for more than one space dimension, since for one dimension no
  restrictions apply"), then \<^verbatim>\<open>fix_coarsen_flags\<close>. The documentation of
  \<^verbatim>\<open>patch_level_1\<close> says that with it the island options "will be ignored". The steps
  that only take coarsen flags away come first, the regularization comes last, so that
  what the smoothing steps flag is regularized in the same pass.
\<close>

definition restrict_coarsening ::
  "MeshSmoothing \<Rightarrow> 'c mesh_view \<Rightarrow> 'c cell_flags \<Rightarrow> 'c cell_flags" where
  "restrict_coarsening sg v f =
     (if has_flag sg do_not_produce_unrefined_islands
      then do_not_produce_unrefined_islands_step v else id)
       ((if has_flag sg coarsest_level_1 \<or> has_flag sg patch_level_1
         then clear_coarsen_flags_level_1 v else id) f)"

definition eliminate_refined_islands_if ::
  "MeshSmoothing \<Rightarrow> 'c mesh_view \<Rightarrow> 'c cell_flags \<Rightarrow> 'c cell_flags" where
  "eliminate_refined_islands_if sg v f =
     (if (has_flag sg eliminate_refined_inner_islands \<or>
          has_flag sg eliminate_refined_boundary_islands) \<and> \<not> has_flag sg patch_level_1
      then eliminate_refined_islands_step sg v else id) f"

definition smooth_refinement ::
  "MeshSmoothing \<Rightarrow> 'c mesh_view \<Rightarrow> 'c cell_flags \<Rightarrow> 'c cell_flags" where
  "smooth_refinement sg v f =
     regularize v
       ((if has_flag sg patch_level_1 then patch_level_1_step v else id)
          ((if has_flag sg eliminate_unrefined_islands \<and> \<not> has_flag sg patch_level_1
            then eliminate_unrefined_islands_step v else id)
             ((if has_flag sg limit_level_difference_at_vertices
               then limit_level_difference v else id) f)))"

definition smooth_and_regularize ::
  "MeshSmoothing \<Rightarrow> 'c mesh_view \<Rightarrow> 'c cell_flags \<Rightarrow> 'c cell_flags" where
  "smooth_and_regularize sg v f =
     smooth_refinement sg v (eliminate_refined_islands_if sg v (restrict_coarsening sg v f))"

definition prepare_pass ::
  "MeshSmoothing \<Rightarrow> 'c mesh_view \<Rightarrow> 'c cell_flags \<Rightarrow> 'c cell_flags" where
  "prepare_pass sg v f =
     fix_coarsen_flags v (if 2 \<le> view_dim v then smooth_and_regularize sg v f else f)"

text \<open>
  Spec: "The whole regularization+smoothing sequence repeats until no cell's flag set
  changes in a full pass". The loop may not return: the result is an option.
\<close>

partial_function (option) prepare_loop ::
  "MeshSmoothing \<Rightarrow> 'c mesh_view \<Rightarrow> 'c cell_flags \<Rightarrow> 'c cell_flags option" where
  "prepare_loop sg v f =
     (let f' = prepare_pass sg v f
      in if f' \<noteq> f then prepare_loop sg v f' else Some f')"



text \<open>
  The order in which the steps move the flags: refine flags are only added, coarsen flags
  only removed.
\<close>

definition flags_le :: "'c cell_flags \<Rightarrow> 'c cell_flags \<Rightarrow> bool" where
  "flags_le f g \<longleftrightarrow> refine f \<subseteq> refine g \<and> coarsen g \<subseteq> coarsen f"



text \<open>
  Flags as every pass leaves them: no cell carries both flags, and only active cells
  carry the coarsen flag.
\<close>

definition consistent :: "'c mesh_view \<Rightarrow> 'c cell_flags \<Rightarrow> bool" where
  "consistent v f \<longleftrightarrow> refine f \<inter> coarsen f = {} \<and> (\<forall>x \<in> coarsen f. active v x)"




text \<open>
  A small mesh: two coarse cells side by side (cells 0 and 1), both refined once, the left
  one into the cells 2, 3, 4, 5 and the right one into 6, 7, 8, 9 (lower left, lower
  right, upper left, upper right each). The neighbors are listed in the order left,
  right, bottom, top.
\<close>

definition two_cells_refined :: "nat mesh_view" where
  "two_cells_refined =
     \<lparr>view_dim = 2,
      cell_list = [0, 1, 2, 3, 4, 5, 6, 7, 8, 9],
      cell_level = (\<lambda>c. if c < 2 then 0 else 1),
      cell_children = (\<lambda>c. if c = 0 then [2, 3, 4, 5] else if c = 1 then [6, 7, 8, 9] else []),
      cell_neighbors =
        (\<lambda>c. if c = 0 then [1] else if c = 1 then [0]
              else if c = 2 then [3, 4] else if c = 3 then [2, 6, 5]
              else if c = 4 then [5, 2] else if c = 5 then [4, 8, 3]
              else if c = 6 then [3, 7, 8] else if c = 7 then [6, 9]
              else if c = 8 then [5, 9, 6] else if c = 9 then [8, 7] else []),
      cell_touching =
        (\<lambda>c. if c = 2 then [3, 4, 5] else if c = 3 then [2, 4, 5, 6, 8]
              else if c = 4 then [2, 3, 5] else if c = 5 then [2, 3, 4, 6, 8]
              else if c = 6 then [3, 5, 7, 8, 9] else if c = 7 then [6, 8, 9]
              else if c = 8 then [3, 5, 6, 7, 9] else if c = 9 then [6, 7, 8] else [])\<rparr>"




definition no_flags :: "'c cell_flags" where
  "no_flags = \<lparr>refine = {}, coarsen = {}\<rparr>"


section \<open>Properties of the smoothing flags\<close>

text \<open>
  C10. \<^verbatim>\<open>maximum_smoothing\<close> contains every named smoothing bit except
  \<^verbatim>\<open>allow_anisotropic_smoothing\<close>: its intersection with \<^verbatim>\<open>allow_anisotropic_smoothing\<close>
  is zero, while each of \<^verbatim>\<open>limit_level_difference_at_vertices\<close>,
  \<^verbatim>\<open>eliminate_unrefined_islands\<close>, \<^verbatim>\<open>patch_level_1\<close>, \<^verbatim>\<open>coarsest_level_1\<close>,
  \<^verbatim>\<open>eliminate_refined_inner_islands\<close>, \<^verbatim>\<open>eliminate_refined_boundary_islands\<close> and
  \<^verbatim>\<open>do_not_produce_unrefined_islands\<close> is contained in it.
\<close>

theorem maximum_smoothing_bits:
  "maximum_smoothing AND allow_anisotropic_smoothing = 0 \<and>
   contains_flag maximum_smoothing limit_level_difference_at_vertices \<and>
   contains_flag maximum_smoothing eliminate_unrefined_islands \<and>
   contains_flag maximum_smoothing patch_level_1 \<and>
   contains_flag maximum_smoothing coarsest_level_1 \<and>
   contains_flag maximum_smoothing eliminate_refined_inner_islands \<and>
   contains_flag maximum_smoothing eliminate_refined_boundary_islands \<and>
   contains_flag maximum_smoothing do_not_produce_unrefined_islands"
  by (simp add: maximum_smoothing_def allow_anisotropic_smoothing_def contains_flag_def
      limit_level_difference_at_vertices_def eliminate_unrefined_islands_def
      patch_level_1_def coarsest_level_1_def eliminate_refined_inner_islands_def
      eliminate_refined_boundary_islands_def do_not_produce_unrefined_islands_def)

section \<open>Properties of save and load\<close>

lemma load_levels_append:
  "load_levels (length ls) (map (\<lambda>l. A_level (f l)) ls @ rest) = Some (map f ls, rest)"
  by (induction ls) (simp_all add: read_level_def)

lemma load_NumberCache_1_save:
  "load_NumberCache_1 c0 (save_NumberCache_1 c @ rest) =
     Some (c0\<lparr>n_levels := n_levels c, n_lines := n_lines c, n_lines_level := n_lines_level c,
               n_active_lines := n_active_lines c,
               n_active_lines_level := n_active_lines_level c\<rparr>, rest)"
  by (simp add: load_NumberCache_1_def save_NumberCache_1_def read_uint_def read_uints_def)

lemma load_NumberCache_2_save:
  "load_NumberCache_2 c0 (save_NumberCache_2 c @ rest) =
     Some (c0\<lparr>n_levels := n_levels c, n_lines := n_lines c, n_lines_level := n_lines_level c,
               n_active_lines := n_active_lines c,
               n_active_lines_level := n_active_lines_level c,
               n_quads := n_quads c, n_quads_level := n_quads_level c,
               n_active_quads := n_active_quads c,
               n_active_quads_level := n_active_quads_level c\<rparr>, rest)"
  by (simp add: load_NumberCache_2_def save_NumberCache_2_def load_NumberCache_1_save
      read_uint_def read_uints_def)

lemma load_NumberCache_3_save:
  "load_NumberCache_3 c0 (save_NumberCache_3 c @ rest) =
     Some (c0\<lparr>n_levels := n_levels c, n_lines := n_lines c, n_lines_level := n_lines_level c,
               n_active_lines := n_active_lines c,
               n_active_lines_level := n_active_lines_level c,
               n_quads := n_quads c, n_quads_level := n_quads_level c,
               n_active_quads := n_active_quads c,
               n_active_quads_level := n_active_quads_level c,
               n_hexes := n_hexes c, n_hexes_level := n_hexes_level c,
               n_active_hexes := n_active_hexes c,
               n_active_hexes_level := n_active_hexes_level c\<rparr>, rest)"
  by (simp add: load_NumberCache_3_def save_NumberCache_3_def load_NumberCache_2_save
      read_uint_def read_uints_def)

text \<open>The number cache read back has the active cell count that was written, whatever
  follows it in the archive.\<close>

lemma load_NumberCache_save:
  "\<exists>c'. (\<forall>rest::'a archive.
            load_NumberCache d c0 (save_NumberCache d c @ rest) = Some (c', rest)) \<and>
        n_active_cells_cache d c' = n_active_cells_cache d c"
  by (simp add: load_NumberCache_def save_NumberCache_def load_NumberCache_1_save
      load_NumberCache_2_save load_NumberCache_3_save n_active_cells_cache_def)

text \<open>Rebuilding the active cell indices touches no cell.\<close>

lemma reset_indices_levels_cells:
  "map cells (reset_indices_levels n ls) = map cells ls"
  by (induction ls arbitrary: n) (simp_all split: prod.splits)

lemma map_cells_comp:
  "map (\<lambda>l. f (cells l)) ls = map f (map cells ls)"
  by simp

text \<open>What the first part of \<^verbatim>\<open>load\<close> makes of an archive written by \<^verbatim>\<open>save\<close>.\<close>

lemma load_data_save:
  assumes "dim t2 = dim t1"
  shows "\<exists>nc. load_data (clear t2) (save t1) =
     Some (reset_active_cell_indices
             ((clear t2)\<lparr>smooth_grid := smooth_grid t1, faces := faces t1, vertices := vertices t1,
                 vertices_used := vertices_used t1,
                 anisotropic_refinement := anisotropic_refinement t1, number_cache := nc,
                 levels := map (\<lambda>l. l\<lparr>active_cell_indices :=
                                resize 0 (length (refine_flags l)) (active_cell_indices l)\<rparr>)
                             (map serialize_level (levels t1))\<rparr>),
           check_for_distorted_cells t1,
           (if dim t1 = 1
            then [A_id_map (vertex_to_boundary_id_map_1d t1),
                  A_id_map (vertex_to_manifold_id_map_1d t1)]
            else [])) \<and>
     n_active_cells_cache (dim t1) nc = n_active_cells_cache (dim t1) (number_cache t1)"
proof -
  obtain nc where nc:
    "\<And>rest::'a archive. load_NumberCache (dim t1) NumberCache_init
        (save_NumberCache (dim t1) (number_cache t1) @ rest) = Some (nc, rest)"
    "n_active_cells_cache (dim t1) nc = n_active_cells_cache (dim t1) (number_cache t1)"
    using load_NumberCache_save [where ?'a = 'a, of "dim t1" NumberCache_init "number_cache t1"]
    by blast
  show ?thesis
    apply (rule exI [of _ nc])
    apply (simp add: nc(2))
    using nc(1)
    by (cases "dim t1 = 1"; cases "faces t1")
      (simp_all add: load_data_def save_def read_smoothing_def read_uint_def
        load_levels_append read_bool_def read_faces_def read_points_def read_bools_def
        clear_def assms)
qed

text \<open>
  C7. Serializing a triangulation with \<^verbatim>\<open>save\<close> and deserializing it with \<^verbatim>\<open>load\<close> into
  a triangulation constructed with the same distortion-check setting (and of the same
  dimension) succeeds, consumes the whole archive and yields the same active cell count,
  the same vertex positions and vertex usage, and the same material, boundary and manifold
  id of every object. The smoothing setting is itself read from the archive. Signal
  connections and attached manifold objects are not persisted: the archive does not
  depend on them, the loaded triangulation keeps the connections of the receiving one and
  has no manifold object attached.
\<close>

theorem save_load_roundtrip:
  assumes "check_for_distorted_cells t2 = check_for_distorted_cells t1"
    and "dim t2 = dim t1"
  shows "\<exists>t'. load debug t2 (save t1) = Inr (t', []) \<and>
           n_active_cells t' = n_active_cells t1 \<and>
           vertices t' = vertices t1 \<and>
           vertices_used t' = vertices_used t1 \<and>
           all_ids t' = all_ids t1 \<and>
           smooth_grid t' = smooth_grid t1 \<and>
           manifold t' = [] \<and>
           connections t' = connections t2 \<and>
           save (t1\<lparr>manifold := m, connections := c\<rparr>) = save t1"
proof -
  from load_data_save [OF assms(2)] obtain nc where
    ld: "load_data (clear t2) (save t1) =
     Some (reset_active_cell_indices
             ((clear t2)\<lparr>smooth_grid := smooth_grid t1, faces := faces t1, vertices := vertices t1,
                 vertices_used := vertices_used t1,
                 anisotropic_refinement := anisotropic_refinement t1, number_cache := nc,
                 levels := map (\<lambda>l. l\<lparr>active_cell_indices :=
                                resize 0 (length (refine_flags l)) (active_cell_indices l)\<rparr>)
                             (map serialize_level (levels t1))\<rparr>),
           check_for_distorted_cells t1,
           (if dim t1 = 1
            then [A_id_map (vertex_to_boundary_id_map_1d t1),
                  A_id_map (vertex_to_manifold_id_map_1d t1)]
            else []))"
    and nc: "n_active_cells_cache (dim t1) nc = n_active_cells_cache (dim t1) (number_cache t1)"
    by blast
  have sv: "save (t1\<lparr>manifold := m, connections := c\<rparr>) = save t1"
    by (simp add: save_def)
  let ?t0 = "(clear t2)\<lparr>smooth_grid := smooth_grid t1, faces := faces t1, vertices := vertices t1,
                 vertices_used := vertices_used t1,
                 anisotropic_refinement := anisotropic_refinement t1, number_cache := nc,
                 levels := map (\<lambda>l. l\<lparr>active_cell_indices :=
                                resize 0 (length (refine_flags l)) (active_cell_indices l)\<rparr>)
                             (map serialize_level (levels t1))\<rparr>"
  let ?t1 = "reset_active_cell_indices ?t0"
  have dim1: "dim ?t1 = dim t1"
    and chk: "check_for_distorted_cells ?t1 = check_for_distorted_cells t1"
    using assms by (simp_all add: reset_active_cell_indices_def clear_def)
  show ?thesis
    using nc assms
    apply (simp add: load_def ld chk load_maps_1d_def dim1 read_id_map_def sv)
    apply (simp add: reset_active_cell_indices_def clear_def n_active_cells_def
        all_ids_def map_cells_comp reset_indices_levels_cells serialize_level_def o_def
        del: map_map)
    apply (auto split: if_splits simp: o_def)
    done
qed

theorem save_load_roundtrip_witness:
  "check_for_distorted_cells receiving_example = check_for_distorted_cells stored_example \<and>
   dim receiving_example = dim stored_example \<and>
   (\<exists>t'. load True receiving_example (save stored_example) = Inr (t', []) \<and>
         n_active_cells t' = 1 \<and>
         vertices t' = [(0, 0), (1, 0), (0, 1), (1, 1)] \<and>
         all_ids t' = ([[(7, 3)]], None, [], []) \<and>
         smooth_grid t' = limit_level_difference_at_vertices \<and>
         manifold t' = [] \<and>
         connections t' = [(Post_refinement, 5)])"
proof -
  have h1: "check_for_distorted_cells receiving_example = check_for_distorted_cells stored_example"
    by (simp add: receiving_example_def stored_example_def)
  have h2: "dim receiving_example = dim stored_example"
    by (simp add: receiving_example_def stored_example_def)
  have v: "n_active_cells stored_example = 1"
    "vertices stored_example = [(0, 0), (1, 0), (0, 1), (1, 1)]"
    "all_ids stored_example = ([[(7, 3)]], None, [], [])"
    "smooth_grid stored_example = limit_level_difference_at_vertices"
    "connections receiving_example = [(Post_refinement, 5)]"
    by (simp_all add: stored_example_def receiving_example_def n_active_cells_def
        n_active_cells_cache_def NumberCache_init_def all_ids_def object_ids_def)
  from save_load_roundtrip [OF h1 h2, of True "[]" "[]"] v h1 h2
  show ?thesis by auto
qed

section \<open>Properties of the flag preparation\<close>

subsection \<open>Every step but the elimination of refined islands moves the flags up\<close>

lemma flags_le_refl: "flags_le f f"
  by (simp add: flags_le_def)

lemma flags_le_trans: "flags_le f g \<Longrightarrow> flags_le g h \<Longrightarrow> flags_le f h"
  by (auto simp: flags_le_def)

lemma flags_le_antisym: "flags_le f g \<Longrightarrow> flags_le g f \<Longrightarrow> f = g"
  by (cases f, cases g) (auto simp: flags_le_def)

lemma flags_le_fold:
  assumes "\<And>x g. x \<in> set xs \<Longrightarrow> flags_le g (step x g)"
  shows "flags_le f (fold step xs f)"
  using assms
proof (induction xs arbitrary: f)
  case Nil
  then show ?case by (simp add: flags_le_refl)
next
  case (Cons x xs)
  have "flags_le f (step x f)" using Cons.prems by simp
  moreover have "flags_le (step x f) (fold step xs (step x f))"
    using Cons.IH Cons.prems by simp
  ultimately show ?case by (auto intro: flags_le_trans)
qed


lemma flags_le_clear_coarsen_flag: "flags_le f (clear_coarsen_flag c f)"
  by (auto simp: flags_le_def clear_coarsen_flag_def)

lemma flags_le_clear_coarsen_flags: "flags_le f (fold clear_coarsen_flag xs f)"
  by (rule flags_le_fold) (rule flags_le_clear_coarsen_flag)























subsection \<open>The steps are monotone\<close>

lemma mono_fold:
  assumes "\<And>x f g. I f \<Longrightarrow> I g \<Longrightarrow> flags_le f g \<Longrightarrow> flags_le (step x f) (step x g)"
    and "\<And>x f. I f \<Longrightarrow> I (step x f)"
    and "I f" "I g" "flags_le f g"
  shows "flags_le (fold step xs f) (fold step xs g)"
  using assms(3-5)
proof (induction xs arbitrary: f g)
  case Nil
  then show ?case by simp
next
  case (Cons x xs)
  show ?case
    using Cons.IH [of "step x f" "step x g"] Cons.prems assms(1,2) by simp
qed

lemma inv_fold:
  assumes "\<And>x f. I f \<Longrightarrow> I (step x f)" and "I f"
  shows "I (fold step xs f)"
  using assms(2) by (induction xs arbitrary: f) (simp_all add: assms(1))

lemma refine_flag_for_refinement: "refine (flag_for_refinement c f) = insert c (refine f)"
  by (simp add: flag_for_refinement_def set_refine_flag_def clear_coarsen_flag_def)

lemma coarsen_flag_for_refinement: "coarsen (flag_for_refinement c f) = coarsen f - {c}"
  by (simp add: flag_for_refinement_def set_refine_flag_def clear_coarsen_flag_def)

lemma refine_clear_coarsen_flag: "refine (clear_coarsen_flag c f) = refine f"
  by (simp add: clear_coarsen_flag_def)

lemma coarsen_clear_coarsen_flag: "coarsen (clear_coarsen_flag c f) = coarsen f - {c}"
  by (simp add: clear_coarsen_flag_def)

lemma refine_clear_coarsen_flags: "refine (fold clear_coarsen_flag xs f) = refine f"
  by (induction xs arbitrary: f) (simp_all add: refine_clear_coarsen_flag)

lemma coarsen_clear_coarsen_flags: "coarsen (fold clear_coarsen_flag xs f) = coarsen f - set xs"
  by (induction xs arbitrary: f) (auto simp: coarsen_clear_coarsen_flag)

lemmas flag_sets = refine_flag_for_refinement coarsen_flag_for_refinement
  refine_clear_coarsen_flag coarsen_clear_coarsen_flag
  refine_clear_coarsen_flags coarsen_clear_coarsen_flags


lemma mono_clear_coarsen_flag:
  "flags_le f g \<Longrightarrow> flags_le (clear_coarsen_flag c f) (clear_coarsen_flag c g)"
  by (auto simp: flags_le_def flag_sets)

lemma mono_clear_coarsen_flags:
  "flags_le f g \<Longrightarrow> flags_le (fold clear_coarsen_flag xs f) (fold clear_coarsen_flag xs g)"
  by (auto simp: flags_le_def flag_sets)

lemma consistent_flag_for_refinement:
  "consistent v f \<Longrightarrow> consistent v (flag_for_refinement c f)"
  by (auto simp: consistent_def flag_sets)

lemma consistent_clear_coarsen_flag:
  "consistent v f \<Longrightarrow> consistent v (clear_coarsen_flag c f)"
  by (auto simp: consistent_def flag_sets)

lemma consistent_clear_coarsen_flags:
  "consistent v f \<Longrightarrow> consistent v (fold clear_coarsen_flag xs f)"
  by (auto simp: consistent_def flag_sets)



lemma length_filter_mono:
  "(\<And>x. x \<in> set xs \<Longrightarrow> P x \<Longrightarrow> Q x) \<Longrightarrow> length (filter P xs) \<le> length (filter Q xs)"
  by (induction xs) auto

lemma length_filter_not: "length (filter (\<lambda>x. \<not> P x) xs) = length xs - length (filter P xs)"
  using sum_length_filter_compl [of P xs] by simp

paragraph \<open>Limiting the level difference at vertices\<close>




lemma consistent_limit_cell:
  "consistent v f \<Longrightarrow> consistent v (limit_level_difference_cell v c f)"
  by (simp add: limit_level_difference_cell_def consistent_flag_for_refinement
      consistent_clear_coarsen_flag)


lemma consistent_limit: "consistent v f \<Longrightarrow> consistent v (limit_level_difference v f)"
  unfolding limit_level_difference_def
  by (rule inv_fold [where I = "consistent v"]) (simp_all add: consistent_limit_cell)

paragraph \<open>Elimination of unrefined islands\<close>



lemma consistent_unrefined_island:
  "consistent v f \<Longrightarrow> consistent v (eliminate_unrefined_island v c f)"
  by (simp add: eliminate_unrefined_island_def Let_def consistent_flag_for_refinement)


lemma consistent_unrefined_islands:
  "consistent v f \<Longrightarrow> consistent v (eliminate_unrefined_islands_step v f)"
  unfolding eliminate_unrefined_islands_step_def
  by (rule inv_fold [where I = "consistent v"]) (simp_all add: consistent_unrefined_island)

paragraph \<open>Regularization\<close>


lemma consistent_regularize_neighbor:
  "consistent v f \<Longrightarrow> consistent v (regularize_neighbor v c n f)"
  by (simp add: regularize_neighbor_def consistent_flag_for_refinement
      consistent_clear_coarsen_flag)


lemma consistent_regularize_cell: "consistent v f \<Longrightarrow> consistent v (regularize_cell v c f)"
  unfolding regularize_cell_def
  by (auto intro: inv_fold [where I = "consistent v"] consistent_regularize_neighbor)


lemma consistent_regularize: "consistent v f \<Longrightarrow> consistent v (regularize v f)"
  unfolding regularize_def
  by (rule inv_fold [where I = "consistent v"]) (simp_all add: consistent_regularize_cell)

paragraph \<open>Coarsest level one, patch level one, no new unrefined islands\<close>

lemma mono_clear_level_1:
  "flags_le f g \<Longrightarrow> flags_le (clear_coarsen_flags_level_1 v f) (clear_coarsen_flags_level_1 v g)"
  unfolding clear_coarsen_flags_level_1_def
  by (rule mono_fold [where I = "\<lambda>_. True"])
    (simp_all add: clear_coarsen_flag_level_1_def mono_clear_coarsen_flag)


lemma unrefined_neighbor_antimono:
  "flags_le f g \<Longrightarrow> unrefined_neighbor v g n \<Longrightarrow> unrefined_neighbor v f n"
  by (auto simp: unrefined_neighbor_def flags_le_def list_all_iff split: if_splits)

lemma mono_keep_refined:
  assumes "flags_le f g"
  shows "flags_le (keep_refined v c f) (keep_refined v c g)"
proof -
  have a: "length (filter (unrefined_neighbor v g) (cell_neighbors v c))
           \<le> length (filter (unrefined_neighbor v f) (cell_neighbors v c))"
    by (rule length_filter_mono) (rule unrefined_neighbor_antimono [OF assms])
  have b: "length (filter (\<lambda>n. \<not> unrefined_neighbor v f n) (cell_neighbors v c))
           \<le> length (filter (\<lambda>n. \<not> unrefined_neighbor v g n) (cell_neighbors v c))"
    by (rule length_filter_mono) (use unrefined_neighbor_antimono [OF assms] in blast)
  show ?thesis
    using a b assms flags_le_trans [OF assms flags_le_clear_coarsen_flags]
    by (auto simp: keep_refined_def mono_clear_coarsen_flags)
qed


lemma mono_do_not_produce:
  "flags_le f g \<Longrightarrow> flags_le (do_not_produce_unrefined_islands_step v f)
                             (do_not_produce_unrefined_islands_step v g)"
  unfolding do_not_produce_unrefined_islands_step_def
  by (rule mono_fold [where I = "\<lambda>_. True"]) (simp_all add: mono_keep_refined)



lemma consistent_patch_refine_cell:
  "consistent v f \<Longrightarrow> consistent v (patch_refine_cell v c f)"
  unfolding patch_refine_cell_def
  by (auto intro!: inv_fold [where I = "consistent v"] simp: consistent_flag_for_refinement)


lemma consistent_patch_coarsen_cell:
  "consistent v f \<Longrightarrow> consistent v (patch_coarsen_cell v c f)"
  by (simp add: patch_coarsen_cell_def consistent_clear_coarsen_flags)


lemma consistent_patch_level_1: "consistent v f \<Longrightarrow> consistent v (patch_level_1_step v f)"
  unfolding patch_level_1_step_def
  by (intro inv_fold [where I = "consistent v"])
    (simp_all add: consistent_patch_coarsen_cell consistent_patch_refine_cell)

paragraph \<open>fix_coarsen_flags\<close>




paragraph \<open>The steps before and after the elimination of refined islands\<close>

lemma mono_restrict_coarsening:
  "flags_le f g \<Longrightarrow> flags_le (restrict_coarsening sg v f) (restrict_coarsening sg v g)"
  by (simp add: restrict_coarsening_def mono_do_not_produce mono_clear_level_1)



lemma consistent_smooth_refinement:
  "consistent v f \<Longrightarrow> consistent v (smooth_refinement sg v f)"
  by (simp add: smooth_refinement_def consistent_regularize consistent_patch_level_1
      consistent_unrefined_islands consistent_limit)

subsection \<open>The elimination of refined islands\<close>






























subsection \<open>From the second pass on the flags only move up\<close>





subsection \<open>Termination of the loop\<close>




lemma prepare_loop_stop:
  "prepare_pass sg v f = f \<Longrightarrow> prepare_loop sg v f = Some f"
  by (subst prepare_loop.simps) (simp add: Let_def)























subsection \<open>Examples\<close>

lemmas flag_step_defs =
  prepare_pass_def smooth_and_regularize_def restrict_coarsening_def
  eliminate_refined_islands_if_def smooth_refinement_def has_flag_def
  none_def eliminate_refined_boundary_islands_def eliminate_refined_inner_islands_def
  patch_level_1_def coarsest_level_1_def do_not_produce_unrefined_islands_def
  allow_anisotropic_smoothing_def
  limit_level_difference_at_vertices_def eliminate_unrefined_islands_def
  smoothing_on_refinement_def
  eliminate_refined_islands_step_def eliminate_refined_island_def island_to_eliminate_def
  refined_island_def active_def
  unrefined_neighbor_def regularize_def regularize_cell_def regularize_neighbor_def
  fix_coarsen_flags_def may_be_coarsened_def coarsening_allowed_def
  set_coarsen_flag_def clear_refine_flag_def set_refine_flag_def clear_coarsen_flag_def
  flag_for_refinement_def limit_level_difference_def limit_level_difference_cell_def
  vertex_level_exceeds_def future_level_def eliminate_unrefined_islands_step_def
  eliminate_unrefined_island_def

lemmas flag_eval = flag_step_defs insert_Diff_if









lemma ex_pass_c:
  "prepare_pass none two_cells_refined \<lparr>refine = {}, coarsen = {6, 7, 8, 9}\<rparr>
     = \<lparr>refine = {}, coarsen = {6, 7, 8, 9}\<rparr>"
  by (simp add: flag_eval two_cells_refined_def)

lemma ex_fix_d:
  "fix_coarsen_flags two_cells_refined \<lparr>refine = {}, coarsen = {6, 7, 8}\<rparr>
     = \<lparr>refine = {}, coarsen = {}\<rparr>"
  by (simp add: flag_eval two_cells_refined_def)

lemma ex_pass_e:
  "prepare_pass smoothing_on_refinement two_cells_refined \<lparr>refine = {3}, coarsen = {6, 7, 8, 9}\<rparr>
     = \<lparr>refine = {3}, coarsen = {}\<rparr>"
  by (simp add: flag_eval two_cells_refined_def)

lemma ex_pass_f:
  "prepare_pass smoothing_on_refinement two_cells_refined \<lparr>refine = {3}, coarsen = {}\<rparr>
     = \<lparr>refine = {3}, coarsen = {}\<rparr>"
  by (simp add: flag_eval two_cells_refined_def)




lemma ex_loop_c:
  "prepare_loop none two_cells_refined \<lparr>refine = {}, coarsen = {6, 7, 8, 9}\<rparr>
     = Some \<lparr>refine = {}, coarsen = {6, 7, 8, 9}\<rparr>"
  by (rule prepare_loop_stop [OF ex_pass_c])




















lemma ex_pass_coarsest:
  "prepare_pass coarsest_level_1 two_cells_refined \<lparr>refine = {}, coarsen = {6, 7, 8, 9}\<rparr>
     = \<lparr>refine = {}, coarsen = {}\<rparr>"
  by (simp add: flag_eval two_cells_refined_def clear_coarsen_flags_level_1_def
      clear_coarsen_flag_level_1_def)

lemma ex_pass_patch:
  "prepare_pass patch_level_1 two_cells_refined \<lparr>refine = {3}, coarsen = {}\<rparr>
     = \<lparr>refine = {2, 3, 4, 5}, coarsen = {}\<rparr>"
  by (simp add: flag_eval two_cells_refined_def clear_coarsen_flags_level_1_def
      clear_coarsen_flag_level_1_def patch_level_1_step_def patch_refine_cell_def
      patch_coarsen_cell_def grandchildren_def insert_commute)

lemma ex_pass_do_not_produce:
  "prepare_pass do_not_produce_unrefined_islands two_cells_refined
     \<lparr>refine = {}, coarsen = {6, 7, 8, 9}\<rparr>
     = \<lparr>refine = {}, coarsen = {}\<rparr>"
  by (simp add: flag_eval two_cells_refined_def do_not_produce_unrefined_islands_step_def
      keep_refined_def)

subsection \<open>Coarsening is all or nothing\<close>



subsection \<open>Coarsen flags that the user has not set\<close>




subsection \<open>Number of passes\<close>




end
